theory Spec2Isabelle
  imports Main "HOL-Library.Word"
begin

unbundle bit_operations_syntax

section \<open>The HD44780 driver over the MCP23017 port expander (hd44780i2c.c)\<close>

text \<open>
  The driver is embedded as state transformers over a \<open>world\<close>: the sequence of expander
  register accesses and sleeps performed so far, the lines written to the standard
  output so far, and the outcomes the bus will give to the accesses still to come.
\<close>

type_synonym uint8_t = "8 word"
type_synonym int8_t = "8 word" \<comment> \<open>two's complement, read with \<open>sint\<close>\<close>

subsection \<open>The expander port and the clock\<close>

datatype event =
    SetBitsByte nat nat uint8_t
  | UnsetBitsByte nat nat uint8_t
  | WriteByte nat nat uint8_t
  | Usleep nat
  | Nanosleep nat
  | MutexLock
  | MutexUnlock
  | GotoRowPos nat nat
  | WriteString "uint8_t list"

datatype port_result = PortOk | BusFault

text \<open>
  The lines the driver prints, each with the argument of its format:
  "Command byte = 0x%02x." and "Data byte = 0x%02x." with the byte,
  "Writing high nibble 0x%x." and "Writing low nibble 0x%x." with the nibble,
  "Toggling EN bit for high nibble.", "Toggling EN bit for low nibble.",
  "Initialising LCD display.", "Setting LCD functions." and
  "Finished initialising LCD display.".
\<close>

datatype message =
    Command_byte uint8_t
  | Data_byte uint8_t
  | Writing_high_nibble uint8_t
  | Toggling_high_nibble
  | Writing_low_nibble uint8_t
  | Toggling_low_nibble
  | Initialising_display
  | Setting_functions
  | Finished_initialising

record world =
  pending :: "bool list"
  trace :: "event list"
  stdout :: "message list"

text \<open>
  Modelled from the spec: mcp23017.c and mcp23017.h are not part of the sources. The
  ExpanderPort capability is \<open>setBits(registerId, mask)\<close>, \<open>clearBits(registerId, mask)\<close>,
  \<open>writeByte(registerId, value)\<close>, "all synchronous, each either succeeds or fails with a
  bus-fault indication". An access is appended to the trace; it fails when the next
  pending outcome says so (\<open>True\<close> is a fault, an exhausted list is success).
\<close>

definition port_access :: "event \<Rightarrow> world \<Rightarrow> port_result \<times> world" where
  "port_access e w =
     (case pending w of
        [] \<Rightarrow> (PortOk, w\<lparr>trace := trace w @ [e]\<rparr>)
      | f # fs \<Rightarrow> (if f then BusFault else PortOk,
                   w\<lparr>pending := fs, trace := trace w @ [e]\<rparr>))"

text \<open>
  Modelled from the spec: \<open>mcp23017SetBitsByte(handle, register, mask)\<close>, the set-bits
  access of the ExpanderPort, which the source describes as changing no other bit.
\<close>

definition mcp23017SetBitsByte :: "nat \<Rightarrow> nat \<Rightarrow> uint8_t \<Rightarrow> world \<Rightarrow> port_result \<times> world" where
  "mcp23017SetBitsByte h r m = port_access (SetBitsByte h r m)"

text \<open>
  Modelled from the spec: \<open>mcp23017UnsetBitsByte(handle, register, mask)\<close>, the clear-bits
  access of the ExpanderPort.
\<close>

definition mcp23017UnsetBitsByte :: "nat \<Rightarrow> nat \<Rightarrow> uint8_t \<Rightarrow> world \<Rightarrow> port_result \<times> world" where
  "mcp23017UnsetBitsByte h r m = port_access (UnsetBitsByte h r m)"

text \<open>Everything else the driver does to its environment is an event without an outcome.\<close>

definition emit :: "event \<Rightarrow> world \<Rightarrow> world" where
  "emit e w = w\<lparr>trace := trace w @ [e]\<rparr>"

text \<open>
  Modelled from the spec: the effect of one access on the contents of output register
  \<open>r\<close> of expander \<open>h\<close>. Setting bits ORs the mask in, clearing bits masks it out, a byte
  write replaces the contents; sleeps and accesses to other registers leave it alone.
\<close>

fun port_effect :: "nat \<Rightarrow> nat \<Rightarrow> event \<Rightarrow> uint8_t \<Rightarrow> uint8_t" where
  "port_effect h r (SetBitsByte h' r' m) v = (if h' = h \<and> r' = r then v OR m else v)"
| "port_effect h r (UnsetBitsByte h' r' m) v = (if h' = h \<and> r' = r then v AND NOT m else v)"
| "port_effect h r (WriteByte h' r' x) v = (if h' = h \<and> r' = r then x else v)"
| "port_effect h r (Usleep n) v = v"
| "port_effect h r (Nanosleep n) v = v"
| "port_effect h r MutexLock v = v"
| "port_effect h r MutexUnlock v = v"
| "port_effect h r (GotoRowPos row pos) v = v"
| "port_effect h r (WriteString bs) v = v"

definition latch_after :: "nat \<Rightarrow> nat \<Rightarrow> event list \<Rightarrow> uint8_t \<Rightarrow> uint8_t" where
  "latch_after h r es v = fold (port_effect h r) es v"

definition usleep :: "nat \<Rightarrow> world \<Rightarrow> world" where
  "usleep n = emit (Usleep n)"

text \<open>\<open>printf\<close> appends its line to the standard output.\<close>

definition printf :: "message \<Rightarrow> world \<Rightarrow> world" where
  "printf m w = w\<lparr>stdout := stdout w @ [m]\<rparr>"

subsection \<open>The display handle\<close>

text \<open>
  \<open>struct hd44780i2c\<close> is declared in hd44780i2c.h, which is not part of the sources;
  the members the code reads are the expander handle, the register, and the masks of the
  RS, EN and data pins, the latter an array of \<open>BITS_NIBBLE\<close> entries.
\<close>

record hd44780i2c =
  mcp23017 :: nat
  reg :: nat
  rs :: uint8_t
  en :: uint8_t
  db :: "uint8_t list"


text \<open>
  Modelled from the spec: the header's macros. A nibble is four bits; the source prints
  "Command byte" under \<open>!mode\<close>, so the command mode is 0, and it sets RS by
  \<open>display->rs * mode\<close>, so the data mode is 1.
\<close>

definition BITS_NIBBLE :: nat where
  "BITS_NIBBLE = 4"

definition MODE_COMMAND :: uint8_t where
  "MODE_COMMAND = 0"

definition MODE_DATA :: uint8_t where
  "MODE_DATA = 1"

subsection \<open>Enable pulse and byte transmission\<close>

text \<open>
  \<open>hd44780ToggleEnable\<close>: set EN, sleep 5 ms, clear EN, sleep 5 ms. The results of the two
  port accesses are not looked at.
\<close>

definition hd44780ToggleEnable :: "hd44780i2c \<Rightarrow> world \<Rightarrow> world" where
  "hd44780ToggleEnable display w =
     (let w1 = snd (mcp23017SetBitsByte (mcp23017 display) (reg display) (en display) w);
          w2 = usleep 5000 w1;
          w3 = snd (mcp23017UnsetBitsByte (mcp23017 display) (reg display) (en display) w2);
          w4 = usleep 5000 w3
      in w4)"

text \<open>
  The loop \<open>for (i = 0; i < BITS_NIBBLE; i++) byte |= display->db[i] * ((nib < i) & 0x1)\<close>,
  with the comparison \<open>nib < i\<close> exactly as the source has it. In \<open>hd44780WriteByte\<close>
  the source hands \<open>display->mcp23017\<close> to \<open>hd44780ToggleEnable\<close>, and in
  \<open>initialiseDisplay\<close> an extra argument; in both places the pulse is the display's.
  \<open>hd44780WriteByte\<close> prints the byte it was given, under \<open>!mode\<close> as a command byte
  and as a data byte otherwise, and a line before each word and each pulse.
\<close>

definition add_gpio_bits :: "hd44780i2c \<Rightarrow> uint8_t \<Rightarrow> uint8_t \<Rightarrow> uint8_t" where
  "add_gpio_bits display nib byte =
     fold (\<lambda>i b. b OR (db display ! i) * (of_bool (unat nib < i) AND 1)) [0..<BITS_NIBBLE] byte"

definition hd44780WriteByte :: "hd44780i2c \<Rightarrow> uint8_t \<Rightarrow> uint8_t \<Rightarrow> world \<Rightarrow> int8_t \<times> world" where
  "hd44780WriteByte display data mode w =
     (let hi = drop_bit BITS_NIBBLE data AND 0xf;
          lo = data AND 0xf;
          w0 = printf (if mode = 0 then Command_byte data else Data_byte data) w;
          byte = add_gpio_bits display hi (rs display * mode);
          w1 = printf (Writing_high_nibble hi) w0;
          w2 = snd (mcp23017SetBitsByte (mcp23017 display) (reg display) byte w1);
          w3 = printf Toggling_high_nibble w2;
          w4 = hd44780ToggleEnable display w3;
          byte' = add_gpio_bits display lo (rs display * mode);
          w5 = printf (Writing_low_nibble lo) w4;
          w6 = snd (mcp23017SetBitsByte (mcp23017 display) (reg display) byte' w5);
          w7 = printf Toggling_low_nibble w6;
          w8 = hd44780ToggleEnable display w7
      in (0, w8))"

subsection \<open>The header's macros\<close>

text \<open>
  hd44780i2c.h is not part of the sources, so the macros whose values the spec does not
  give are parameters: the panel size, the ticker's text limit and the instruction codes.
  The codes are macros of type \<open>int\<close> that reach \<open>hd44780WriteByte\<close> through its \<open>uint8_t\<close>
  parameter; \<open>|\<close>, \<open>+\<close> and the multiplication by a \<open>bool\<close> commute with that truncation, so
  the record holds their low eight bits.
\<close>

record header =
  DISPLAY_ROWS :: int
  DISPLAY_COLUMNS :: int
  TEXT_MAX_LENGTH :: nat
  DISPLAY_CLEAR :: uint8_t
  DISPLAY_HOME :: uint8_t
  ENTRY_BASE :: uint8_t
  ENTRY_COUNTER :: uint8_t
  ENTRY_SHIFT :: uint8_t
  DISPLAY_BASE :: uint8_t
  DISPLAY_ON :: uint8_t
  DISPLAY_CURSOR :: uint8_t
  DISPLAY_BLINK :: uint8_t
  MOVE_BASE :: uint8_t
  MOVE_DISPLAY :: uint8_t
  MOVE_DIRECTION :: uint8_t
  FUNCTION_BASE :: uint8_t
  FUNCTION_DATA :: uint8_t
  FUNCTION_LINES :: uint8_t
  FUNCTION_FONT :: uint8_t
  ADDRESS_CGRAM :: uint8_t

text \<open>
  Modelled from the spec: the DDRAM-select bit and the row start addresses
  ("rowStart = [0x00,0x40,0x14,0x54]", "0x80 | (0x40+3) = 0xC3"), and the size of the
  source's array of row addresses, which it initialises with four entries.
\<close>

definition ADDRESS_DDRAM :: uint8_t where
  "ADDRESS_DDRAM = 0x80"

definition ADDRESS_ROW_0 :: uint8_t where
  "ADDRESS_ROW_0 = 0x00"

definition ADDRESS_ROW_1 :: uint8_t where
  "ADDRESS_ROW_1 = 0x40"

definition ADDRESS_ROW_2 :: uint8_t where
  "ADDRESS_ROW_2 = 0x14"

definition ADDRESS_ROW_3 :: uint8_t where
  "ADDRESS_ROW_3 = 0x54"

definition DISPLAY_ROWS_MAX :: nat where
  "DISPLAY_ROWS_MAX = 4"

text \<open>
  Modelled from the spec: the dimensions of the glyph table ("fixed table of N glyphs x M
  rows"); the source's \<open>pacMan\<close> table initialises seven glyphs of eight rows.
\<close>

definition CUSTOM_CHARS :: nat where
  "CUSTOM_CHARS = 7"

definition CUSTOM_SIZE :: nat where
  "CUSTOM_SIZE = 8"

subsection \<open>Strings and cursor\<close>

text \<open>
  \<open>hd44780WriteString\<close>: the string is given by its bytes before the terminating NUL, so
  \<open>strlen\<close> is the length of the list. The counter \<open>i\<close> is a \<open>uint8_t\<close> and wraps; the loop
  is a partial function, \<open>None\<close> when it does not return.
\<close>

partial_function (option) writeString_loop ::
  "hd44780i2c \<Rightarrow> uint8_t list \<Rightarrow> uint8_t \<Rightarrow> world \<Rightarrow> world option" where
  "writeString_loop display string i w =
     (if unat i < length string
      then writeString_loop display string (i + 1)
             (snd (hd44780WriteByte display (string ! unat i) MODE_DATA w))
      else Some w)"

definition hd44780WriteString :: "hd44780i2c \<Rightarrow> uint8_t list \<Rightarrow> world \<Rightarrow> (int8_t \<times> world) option" where
  "hd44780WriteString display string w =
     (case writeString_loop display string 0 w of
        None \<Rightarrow> None
      | Some w' \<Rightarrow> Some (0, w'))"

text \<open>
  \<open>hd44780Goto\<close>: \<open>row\<close> and \<open>pos\<close> are \<open>uint8_t\<close>, compared as \<open>int\<close> with the macros. A read
  of the local array \<open>rows\<close> beyond its \<open>DISPLAY_ROWS_MAX\<close> entries is undefined behaviour,
  \<open>None\<close> here.
\<close>

definition hd44780Goto ::
  "header \<Rightarrow> hd44780i2c \<Rightarrow> uint8_t \<Rightarrow> uint8_t \<Rightarrow> world \<Rightarrow> (int8_t \<times> world) option" where
  "hd44780Goto hdr display row pos w =
     (if uint pos < 0 \<or> uint pos > DISPLAY_COLUMNS hdr - 1 then Some (- 1, w)
      else if uint row < 0 \<or> uint row > DISPLAY_ROWS hdr - 1 then Some (- 1, w)
      else
        (let rows = [ADDRESS_ROW_0, ADDRESS_ROW_1, ADDRESS_ROW_2, ADDRESS_ROW_3]
         in if unat row < DISPLAY_ROWS_MAX
            then Some (0, snd (hd44780WriteByte display
                                 ((ADDRESS_DDRAM OR rows ! unat row) + pos) MODE_COMMAND w))
            else None))"

subsection \<open>Display initialisation and modes\<close>

definition displayClear :: "header \<Rightarrow> hd44780i2c \<Rightarrow> world \<Rightarrow> int8_t \<times> world" where
  "displayClear hdr display w =
     (let w1 = snd (hd44780WriteByte display (DISPLAY_CLEAR hdr) MODE_COMMAND w);
          w2 = usleep 1600 w1
      in (0, w2))"

definition displayHome :: "header \<Rightarrow> hd44780i2c \<Rightarrow> world \<Rightarrow> int8_t \<times> world" where
  "displayHome hdr display w =
     (let w1 = snd (hd44780WriteByte display (DISPLAY_HOME hdr) MODE_COMMAND w);
          w2 = usleep 1600 w1
      in (0, w2))"


definition setEntryMode :: "header \<Rightarrow> hd44780i2c \<Rightarrow> bool \<Rightarrow> bool \<Rightarrow> world \<Rightarrow> int8_t \<times> world" where
  "setEntryMode hdr display counter shift w =
     (let w1 = snd (hd44780WriteByte display
                      (ENTRY_BASE hdr OR (of_bool counter * ENTRY_COUNTER hdr)
                                      OR (of_bool shift * ENTRY_SHIFT hdr))
                      MODE_COMMAND w);
          w2 = snd (hd44780WriteByte display (DISPLAY_CLEAR hdr) MODE_COMMAND w1)
      in (0, w2))"

definition setDisplayMode ::
  "header \<Rightarrow> hd44780i2c \<Rightarrow> bool \<Rightarrow> bool \<Rightarrow> bool \<Rightarrow> world \<Rightarrow> int8_t \<times> world" where
  "setDisplayMode hdr display display_on cursor blink w =
     (let w1 = snd (hd44780WriteByte display
                      (DISPLAY_BASE hdr OR (of_bool display_on * DISPLAY_ON hdr)
                                        OR (of_bool cursor * DISPLAY_CURSOR hdr)
                                        OR (of_bool blink * DISPLAY_BLINK hdr))
                      MODE_COMMAND w);
          w2 = snd (hd44780WriteByte display (DISPLAY_CLEAR hdr) MODE_COMMAND w1)
      in (0, w2))"

definition setMoveMode :: "header \<Rightarrow> hd44780i2c \<Rightarrow> bool \<Rightarrow> bool \<Rightarrow> world \<Rightarrow> int8_t \<times> world" where
  "setMoveMode hdr display mode direction w =
     (let w1 = snd (hd44780WriteByte display
                      (MOVE_BASE hdr OR (of_bool mode * MOVE_DISPLAY hdr)
                                     OR (of_bool direction * MOVE_DIRECTION hdr))
                      MODE_COMMAND w);
          w2 = snd (hd44780WriteByte display (DISPLAY_CLEAR hdr) MODE_COMMAND w1)
      in (0, w2))"

text \<open>
  \<open>loadCustom\<close>: the table is an array of \<open>CUSTOM_CHARS\<close> rows of \<open>CUSTOM_SIZE\<close> bytes; a
  table of another shape would be read out of bounds, \<open>None\<close> here.
\<close>

definition loadCustom ::
  "header \<Rightarrow> hd44780i2c \<Rightarrow> uint8_t list list \<Rightarrow> world \<Rightarrow> (int8_t \<times> world) option" where
  "loadCustom hdr display newChar w =
     (if map length newChar = replicate CUSTOM_CHARS CUSTOM_SIZE
      then
        (let w1 = snd (hd44780WriteByte display (ADDRESS_CGRAM hdr) MODE_COMMAND w);
             w2 = fold (\<lambda>i. fold (\<lambda>j wj. snd (hd44780WriteByte display (newChar ! i ! j)
                                                  MODE_DATA wj))
                                  [0..<CUSTOM_SIZE])
                       [0..<CUSTOM_CHARS] w1;
             w3 = snd (hd44780WriteByte display ADDRESS_DDRAM MODE_COMMAND w2)
         in Some (0, w3))
      else None)"

subsection \<open>Rotating the ticker text\<close>

text \<open>
  The buffer is the list of the bytes it holds, its allocated size the length of the list;
  \<open>size_t\<close> indices are naturals (\<open>end--\<close> runs only under \<open>start < end\<close>, and \<open>start++\<close>
  stays below \<open>end\<close>, so neither wraps). An access beyond the buffer is undefined
  behaviour, \<open>None\<close> here.
\<close>

function reverseString :: "uint8_t list \<Rightarrow> nat \<Rightarrow> nat \<Rightarrow> uint8_t list option" where
  "reverseString buffer start end =
     (if start < end
      then (if end - 1 < length buffer
            then reverseString (buffer[start := buffer ! (end - 1), end - 1 := buffer ! start])
                               (start + 1) (end - 1)
            else None)
      else Some buffer)"
  by pat_completeness auto
termination
  by (relation "measure (\<lambda>(buffer, start, end). end - start)") auto

declare reverseString.simps [simp del]

text \<open>\<open>rotateString\<close>: \<open>increments %= length\<close> divides by zero when \<open>length\<close> is 0.\<close>

definition rotateString :: "uint8_t list \<Rightarrow> nat \<Rightarrow> nat \<Rightarrow> uint8_t list option" where
  "rotateString buffer length' increments =
     (if length' = 0 then None
      else
        (let increments' = increments mod length'
         in case reverseString buffer 0 increments' of
              None \<Rightarrow> None
            | Some b1 \<Rightarrow>
                (case reverseString b1 increments' length' of
                   None \<Rightarrow> None
                 | Some b2 \<Rightarrow> reverseString b2 0 length')))"

subsection \<open>The ticker thread\<close>

text \<open>
  \<open>struct tickerStruct\<close> is declared in hd44780i2c.h as well; these are the members
  \<open>displayTicker\<close> reads. The text is the buffer's bytes, the counts are naturals.
\<close>

record tickerStruct =
  ticker_display :: hd44780i2c
  ticker_text :: "uint8_t list"
  ticker_length :: nat
  ticker_padding :: nat
  ticker_delay :: nat
  ticker_increment :: nat
  ticker_row :: nat

datatype thread_status = ThreadExit | Looping | UndefinedBehaviour

text \<open>
  The C library on byte buffers: \<open>strlen\<close> counts the bytes before the first NUL and is
  undefined without one; \<open>strncpy\<close> fills \<open>n\<close> bytes with the source up to its NUL, then
  with NULs.
\<close>

definition strlen :: "uint8_t list \<Rightarrow> nat option" where
  "strlen s = (if 0 \<in> set s then Some (length (takeWhile (\<lambda>c. c \<noteq> 0) s)) else None)"

definition strncpy :: "uint8_t list \<Rightarrow> nat \<Rightarrow> uint8_t list" where
  "strncpy src n = take n (takeWhile (\<lambda>c. c \<noteq> 0) src @ replicate n 0)"

text \<open>
  The padding loop \<open>for (i = length; i < length + padding; i++) text[i] = ' '\<close>, the
  terminator \<open>text[i] = 0\<close> and \<open>length = strlen(text)\<close>.
\<close>

definition add_padding :: "tickerStruct \<Rightarrow> tickerStruct option" where
  "add_padding ticker =
     (let n = ticker_length ticker; p = ticker_padding ticker
      in if n + p < length (ticker_text ticker)
         then
           (let text' = (fold (\<lambda>i t. t[i := 0x20]) [n..<n + p] (ticker_text ticker))[n + p := 0]
            in case strlen text' of
                 None \<Rightarrow> None
               | Some l \<Rightarrow> Some (ticker\<lparr>ticker_text := text', ticker_length := l\<rparr>))
         else None)"

text \<open>
  The loop \<open>while (1)\<close> never leaves; \<open>fuel\<close> bounds the periods observed. \<open>gotoRowPos\<close>
  and \<open>hd44780writeString\<close> are not defined in the sources: their calls are events.
\<close>

primrec ticker_loop ::
  "header \<Rightarrow> nat \<Rightarrow> tickerStruct \<Rightarrow> world \<Rightarrow> thread_status \<times> tickerStruct \<times> world" where
  "ticker_loop hdr 0 ticker w = (Looping, ticker, w)"
| "ticker_loop hdr (Suc fuel) ticker w =
     (let buffer = strncpy (ticker_text ticker) (nat (DISPLAY_COLUMNS hdr));
          w1 = emit MutexLock w;
          w2 = emit (GotoRowPos (ticker_row ticker) 0) w1;
          w3 = emit (WriteString buffer) w2;
          w4 = emit MutexUnlock w3;
          w5 = emit (Nanosleep (ticker_delay ticker * 1000000)) w4
      in case rotateString (ticker_text ticker) (ticker_length ticker)
                (ticker_increment ticker) of
           None \<Rightarrow> (UndefinedBehaviour, ticker, w5)
         | Some text' \<Rightarrow> ticker_loop hdr fuel (ticker\<lparr>ticker_text := text'\<rparr>) w5)"

text \<open>
  \<open>displayTicker\<close>: \<open>pthread_exit\<close> ends the calling thread, so the thread's status, its
  ticker record and the world it leaves are the result.
\<close>

definition displayTicker ::
  "header \<Rightarrow> nat \<Rightarrow> tickerStruct \<Rightarrow> world \<Rightarrow> thread_status \<times> tickerStruct \<times> world" where
  "displayTicker hdr fuel ticker w =
     (if ticker_length ticker + ticker_padding ticker > TEXT_MAX_LENGTH hdr
      then (ThreadExit, ticker, w)
      else
        (case add_padding ticker of
           None \<Rightarrow> (UndefinedBehaviour, ticker, w)
         | Some ticker' \<Rightarrow> ticker_loop hdr fuel ticker' w))"

subsection \<open>A concrete panel\<close>

text \<open>
  The spec's geometry: four rows of twenty columns with the row start addresses above.
  The spec gives neither the instruction codes nor the ticker's text limit: the codes
  are those of the HD44780 data sheet, the limit is 128 bytes. The wiring puts RS, EN
  and DB4..DB7 on six different expander bits.
\<close>

definition panel_4x20 :: header where
  "panel_4x20 =
     \<lparr>DISPLAY_ROWS = 4, DISPLAY_COLUMNS = 20, TEXT_MAX_LENGTH = 128,
      DISPLAY_CLEAR = 0x01, DISPLAY_HOME = 0x02,
      ENTRY_BASE = 0x04, ENTRY_COUNTER = 0x02, ENTRY_SHIFT = 0x01,
      DISPLAY_BASE = 0x08, DISPLAY_ON = 0x04, DISPLAY_CURSOR = 0x02, DISPLAY_BLINK = 0x01,
      MOVE_BASE = 0x10, MOVE_DISPLAY = 0x08, MOVE_DIRECTION = 0x04,
      FUNCTION_BASE = 0x20, FUNCTION_DATA = 0x10, FUNCTION_LINES = 0x08,
      FUNCTION_FONT = 0x04, ADDRESS_CGRAM = 0x40\<rparr>"

definition wiring :: hd44780i2c where
  "wiring = \<lparr>mcp23017 = 0, reg = 0, rs = 0x01, en = 0x02, db = [0x10, 0x20, 0x40, 0x80]\<rparr>"

definition power_on :: world where
  "power_on = \<lparr>pending = [], trace = [], stdout = []\<rparr>"


text \<open>A bus on which each of the next six accesses fails.\<close>

definition bus_down :: world where
  "bus_down = \<lparr>pending = [True, True, True, True, True, True], trace = [], stdout = []\<rparr>"

text \<open>The source's table of custom characters.\<close>

definition pacMan :: "uint8_t list list" where
  "pacMan =
     [[0x00, 0x00, 0x0e, 0x1b, 0x1f, 0x1f, 0x0e, 0x00],
      [0x00, 0x00, 0x0f, 0x16, 0x1c, 0x1e, 0x0f, 0x00],
      [0x00, 0x0e, 0x19, 0x1d, 0x1f, 0x1f, 0x15, 0x00],
      [0x00, 0x0e, 0x13, 0x17, 0x1f, 0x1f, 0x1b, 0x00],
      [0x00, 0x0a, 0x1f, 0x1f, 0x1f, 0x0e, 0x04, 0x00],
      [0x00, 0x00, 0x0a, 0x0e, 0x0e, 0x04, 0x00, 0x00],
      [0x00, 0x00, 0x1e, 0x0d, 0x07, 0x0f, 0x1e, 0x00]]"

text \<open>A ticker whose text and padding together exceed the 4x20 panel's limit of 128.\<close>

definition long_ticker :: tickerStruct where
  "long_ticker =
     \<lparr>ticker_display = wiring, ticker_text = replicate 120 0x41 @ replicate 20 0,
      ticker_length = 120, ticker_padding = 10, ticker_delay = 100, ticker_increment = 1,
      ticker_row = 0\<rparr>"

text \<open>A buffer of five characters and their terminating NUL.\<close>

definition hello :: "uint8_t list" where
  "hello = [0x48, 0x45, 0x4C, 0x4C, 0x4F, 0x00]"

subsection \<open>What a transmission leaves behind\<close>

text \<open>
  The port accesses and sleeps of one byte sent in a mode, and the lines printed for it:
  the word of the high nibble and an EN pulse, then the word of the low nibble and an EN
  pulse; the byte itself appears in the first line printed.
\<close>

definition byte_accesses :: "hd44780i2c \<Rightarrow> uint8_t \<Rightarrow> uint8_t \<Rightarrow> event list" where
  "byte_accesses d x m =
     [SetBitsByte (mcp23017 d) (reg d) (add_gpio_bits d (drop_bit 4 x AND 0xf) (rs d * m)),
      SetBitsByte (mcp23017 d) (reg d) (en d), Usleep 5000,
      UnsetBitsByte (mcp23017 d) (reg d) (en d), Usleep 5000,
      SetBitsByte (mcp23017 d) (reg d) (add_gpio_bits d (x AND 0xf) (rs d * m)),
      SetBitsByte (mcp23017 d) (reg d) (en d), Usleep 5000,
      UnsetBitsByte (mcp23017 d) (reg d) (en d), Usleep 5000]"

definition byte_messages :: "uint8_t \<Rightarrow> uint8_t \<Rightarrow> message list" where
  "byte_messages x m =
     [if m = 0 then Command_byte x else Data_byte x,
      Writing_high_nibble (drop_bit 4 x AND 0xf), Toggling_high_nibble,
      Writing_low_nibble (x AND 0xf), Toggling_low_nibble]"


subsection \<open>The initialisation commands in the spec's words\<close>






section \<open>Traces of the port primitives\<close>

lemma port_access_trace: "trace (snd (port_access e w)) = trace w @ [e]"
  by (simp add: port_access_def split: list.split)

lemma port_access_pending: "pending (snd (port_access e w)) = tl (pending w)"
  by (simp add: port_access_def split: list.split)

lemma emit_trace: "trace (emit e w) = trace w @ [e]"
  by (simp add: emit_def)

lemma emit_pending: "pending (emit e w) = pending w"
  by (simp add: emit_def)

lemma port_access_world:
  "snd (port_access e w) = w\<lparr>pending := drop (Suc 0) (pending w), trace := trace w @ [e]\<rparr>"
  by (cases "pending w") (simp_all add: port_access_def)

lemma hd44780ToggleEnable_world:
  "hd44780ToggleEnable d w =
     w\<lparr>pending := drop 2 (pending w),
       trace := trace w @ [SetBitsByte (mcp23017 d) (reg d) (en d), Usleep 5000,
                           UnsetBitsByte (mcp23017 d) (reg d) (en d), Usleep 5000]\<rparr>"
  by (simp add: hd44780ToggleEnable_def mcp23017SetBitsByte_def mcp23017UnsetBitsByte_def
      usleep_def emit_def port_access_world numeral_2_eq_2)

lemma hd44780ToggleEnable_trace:
  "trace (hd44780ToggleEnable d w) =
     trace w @ [SetBitsByte (mcp23017 d) (reg d) (en d), Usleep 5000,
                UnsetBitsByte (mcp23017 d) (reg d) (en d), Usleep 5000]"
  by (simp add: hd44780ToggleEnable_world)

lemma hd44780ToggleEnable_pending:
  "pending (hd44780ToggleEnable d w) = tl (tl (pending w))"
  by (simp add: hd44780ToggleEnable_def mcp23017SetBitsByte_def mcp23017UnsetBitsByte_def
      usleep_def port_access_pending emit_pending)

section \<open>DDRAM addresses\<close>



section \<open>Byte transmission\<close>

text \<open>
  The whole effect of \<open>hd44780WriteByte\<close>: it returns 0, consumes six outcomes of the
  bus, makes the accesses of the byte and prints its lines.
\<close>

lemma hd44780WriteByte_world:
  "hd44780WriteByte d x m w =
     (0, w\<lparr>pending := drop 6 (pending w),
           trace := trace w @ byte_accesses d x m,
           stdout := stdout w @ byte_messages x m\<rparr>)"
  by (simp add: hd44780WriteByte_def Let_def hd44780ToggleEnable_world mcp23017SetBitsByte_def
      port_access_world printf_def byte_accesses_def byte_messages_def BITS_NIBBLE_def)

lemma hd44780WriteByte_status: "fst (hd44780WriteByte d x m w) = 0"
  by (simp add: hd44780WriteByte_world)

lemma hd44780WriteByte_trace:
  "trace (snd (hd44780WriteByte d x m w)) =
     trace w @
     [SetBitsByte (mcp23017 d) (reg d) (add_gpio_bits d (drop_bit BITS_NIBBLE x AND 0xf) (rs d * m)),
      SetBitsByte (mcp23017 d) (reg d) (en d), Usleep 5000,
      UnsetBitsByte (mcp23017 d) (reg d) (en d), Usleep 5000,
      SetBitsByte (mcp23017 d) (reg d) (add_gpio_bits d (x AND 0xf) (rs d * m)),
      SetBitsByte (mcp23017 d) (reg d) (en d), Usleep 5000,
      UnsetBitsByte (mcp23017 d) (reg d) (en d), Usleep 5000]"
  by (simp add: hd44780WriteByte_world byte_accesses_def BITS_NIBBLE_def)

lemma hd44780WriteByte_pending:
  "pending (snd (hd44780WriteByte d x m w)) = drop 6 (pending w)"
  by (simp add: hd44780WriteByte_world)

text \<open>
  Claim C1. The words that \<open>hd44780WriteByte\<close> composes for the payload 0x41 in data
  mode, on the wiring RS = 0x01, EN = 0x02, DB4..DB7 = 0x10, 0x20, 0x40, 0x80. The call
  makes two word accesses, the high nibble's before the low nibble's, each followed by
  one EN pulse, and both words carry RS. The data bits are not those of the nibbles:
  the source tests \<open>nib < i\<close> where bit \<open>i\<close> of the nibble is meant, so the high nibble
  0100 gives the word 0x01 (no data bit, where DB6 is due) and the low nibble 0001 gives
  0xC1 (DB6 and DB7, where DB4 is due).
\<close>

theorem hd44780WriteByte_0x41_data:
  "trace (snd (hd44780WriteByte wiring 0x41 MODE_DATA power_on)) =
     [SetBitsByte 0 0 0x01, SetBitsByte 0 0 0x02, Usleep 5000, UnsetBitsByte 0 0 0x02, Usleep 5000,
      SetBitsByte 0 0 0xC1, SetBitsByte 0 0 0x02, Usleep 5000, UnsetBitsByte 0 0 0x02, Usleep 5000]"
  by code_simp

text \<open>
  Claim C2. \<open>hd44780WriteByte\<close> never makes a full-byte write: both nibble words go out
  through \<open>mcp23017SetBitsByte\<close>, which only sets bits. With the register holding 0xF0,
  the payload 0x41 in data mode leaves 0xF1 in it, not the last word composed; and from
  an empty register, the data byte 0x41 followed by the command byte 0x01 leaves 0xE1,
  with RS still set from the data byte.
\<close>

theorem hd44780WriteByte_sets_bits:
  "WriteByte h r v \<notin> set (trace (snd (hd44780WriteByte d x m power_on)))
   \<and> latch_after 0 0 (trace (snd (hd44780WriteByte wiring 0x41 MODE_DATA power_on))) 0xF0 = 0xF1
   \<and> latch_after 0 0
        (trace (snd (hd44780WriteByte wiring 0x01 MODE_COMMAND
                       (snd (hd44780WriteByte wiring 0x41 MODE_DATA power_on))))) 0x00 = 0xE1"
proof (intro conjI)
  show "WriteByte h r v \<notin> set (trace (snd (hd44780WriteByte d x m power_on)))"
    by (simp add: hd44780WriteByte_trace power_on_def)
  show "latch_after 0 0 (trace (snd (hd44780WriteByte wiring 0x41 MODE_DATA power_on))) 0xF0 = 0xF1"
    by code_simp
  show "latch_after 0 0
        (trace (snd (hd44780WriteByte wiring 0x01 MODE_COMMAND
                       (snd (hd44780WriteByte wiring 0x41 MODE_DATA power_on))))) 0x00 = 0xE1"
    by code_simp
qed

text \<open>
  Claim C6, as stated, fails: on a bus where every access fails, the first port access
  of \<open>hd44780WriteByte\<close> reports a bus fault and \<open>hd44780WriteByte\<close> returns 0 all the
  same.
\<close>

theorem hd44780WriteByte_fault_counterexample:
  "fst (mcp23017SetBitsByte (mcp23017 wiring) (reg wiring) 0x01 bus_down) = BusFault
   \<and> fst (hd44780WriteByte wiring 0x41 MODE_DATA bus_down) = 0"
  by (simp add: hd44780WriteByte_status mcp23017SetBitsByte_def port_access_def bus_down_def)

text \<open>
  Claim C6, amended. Whatever the outcomes of the port accesses, \<open>hd44780WriteByte\<close>
  returns 0 and makes the same six accesses, each once and in the same order (no
  retry): it consumes exactly six outcomes of the bus and looks at none of them.
\<close>

theorem hd44780WriteByte_ignores_faults:
  "fst (hd44780WriteByte d x m w) = 0
   \<and> trace (snd (hd44780WriteByte d x m w)) =
       trace w @
       [SetBitsByte (mcp23017 d) (reg d) (add_gpio_bits d (drop_bit BITS_NIBBLE x AND 0xf) (rs d * m)),
        SetBitsByte (mcp23017 d) (reg d) (en d), Usleep 5000,
        UnsetBitsByte (mcp23017 d) (reg d) (en d), Usleep 5000,
        SetBitsByte (mcp23017 d) (reg d) (add_gpio_bits d (x AND 0xf) (rs d * m)),
        SetBitsByte (mcp23017 d) (reg d) (en d), Usleep 5000,
        UnsetBitsByte (mcp23017 d) (reg d) (en d), Usleep 5000]
   \<and> pending (snd (hd44780WriteByte d x m w)) = drop 6 (pending w)"
  by (simp only: hd44780WriteByte_status hd44780WriteByte_trace hd44780WriteByte_pending simp_thms)

section \<open>Cursor positioning\<close>



section \<open>Initialisation\<close>




section \<open>Commands on a display that was never initialised\<close>

lemma writeString_loop_drop:
  "unat i \<le> length s \<Longrightarrow> length s < 256 \<Longrightarrow>
   writeString_loop d s i w =
     Some (fold (\<lambda>b w'. snd (hd44780WriteByte d b MODE_DATA w')) (drop (unat i) s) w)"
proof (induction "length s - unat i" arbitrary: i w)
  case 0
  then have "unat i = length s" by simp
  then show ?case by (subst writeString_loop.simps) simp
next
  case (Suc n)
  then have lt: "unat i < length s" by simp
  with Suc.prems have "unat i + 1 < 256" by simp
  then have u: "unat (i + 1) = unat i + 1"
    by (simp add: unat_word_ariths)
  have "n = length s - unat (i + 1)" using Suc.hyps(2) u by simp
  moreover have "unat (i + 1) \<le> length s" using lt u by simp
  ultimately have ih: "writeString_loop d s (i + 1) w' =
     Some (fold (\<lambda>b w'. snd (hd44780WriteByte d b MODE_DATA w')) (drop (unat (i + 1)) s) w')" for w'
    using Suc.hyps(1) Suc.prems(2) by blast
  have dr: "drop (unat i) s = s ! unat i # drop (Suc (unat i)) s"
    using lt by (simp add: Cons_nth_drop_Suc)
  show ?case
    by (subst writeString_loop.simps) (simp add: lt ih u dr)
qed

lemma hd44780WriteString_status:
  "length s < 256 \<Longrightarrow> map_option fst (hd44780WriteString d s w) = Some 0"
  using writeString_loop_drop [of 0 s d w] by (simp add: hd44780WriteString_def)

lemma loadCustom_status:
  "map length glyphs = replicate CUSTOM_CHARS CUSTOM_SIZE \<Longrightarrow>
   map_option fst (loadCustom hdr d glyphs w) = Some 0"
  by (simp add: loadCustom_def Let_def)

lemma hd44780Goto_status:
  assumes "DISPLAY_ROWS hdr \<le> 4"
  shows "map_option fst (hd44780Goto hdr d row pos w) =
           Some (if uint row < DISPLAY_ROWS hdr \<and> uint pos < DISPLAY_COLUMNS hdr then 0 else - 1)"
proof (cases "uint row < DISPLAY_ROWS hdr \<and> uint pos < DISPLAY_COLUMNS hdr")
  case False
  then show ?thesis by (auto simp: hd44780Goto_def)
next
  case True
  then have "uint row < 4" using assms by linarith
  then have "unat row < 4" by (simp only: unat_eq_nat_uint)
  with True show ?thesis by (simp add: hd44780Goto_def DISPLAY_ROWS_MAX_def)
qed

text \<open>
  Claim C5, as stated, fails: on a world where nothing has happened yet, so that no
  initialisation has run, \<open>displayClear\<close> returns 0 and drives the expander.
\<close>

theorem displayClear_uninitialised_counterexample:
  "trace power_on = []
   \<and> fst (displayClear panel_4x20 wiring power_on) = 0
   \<and> trace (snd (displayClear panel_4x20 wiring power_on)) \<noteq> []"
  by (simp add: displayClear_def Let_def usleep_def emit_trace power_on_def)

text \<open>
  Claim C5, amended. The driver keeps no initialised flag and no command looks for one:
  in every world, initialised or not, clear, home and the three mode setters return 0,
  writing a string of fewer than 256 bytes returns 0, loading a table of
  \<open>CUSTOM_CHARS\<close> glyphs of \<open>CUSTOM_SIZE\<close> rows returns 0, and, on a panel of at most four
  rows, positioning returns 0 for a position in range and -1 for one out of range.
\<close>

theorem commands_without_initialise:
  assumes "length s < 256"
    and "map length glyphs = replicate CUSTOM_CHARS CUSTOM_SIZE"
    and "DISPLAY_ROWS hdr \<le> 4"
  shows "fst (displayClear hdr d w) = 0
    \<and> fst (displayHome hdr d w) = 0
    \<and> map_option fst (hd44780Goto hdr d row pos w) =
        Some (if uint row < DISPLAY_ROWS hdr \<and> uint pos < DISPLAY_COLUMNS hdr then 0 else - 1)
    \<and> map_option fst (hd44780WriteString d s w) = Some 0
    \<and> map_option fst (loadCustom hdr d glyphs w) = Some 0
    \<and> fst (setEntryMode hdr d counter shift w) = 0
    \<and> fst (setDisplayMode hdr d display_on cursor blink w) = 0
    \<and> fst (setMoveMode hdr d mode direction w) = 0"
  using assms
  by (simp add: hd44780Goto_status hd44780WriteString_status loadCustom_status
      displayClear_def displayHome_def setEntryMode_def setDisplayMode_def setMoveMode_def Let_def)

theorem commands_without_initialise_witness:
  "length [0x48, 0x69 :: uint8_t] < 256
   \<and> map length pacMan = replicate CUSTOM_CHARS CUSTOM_SIZE
   \<and> DISPLAY_ROWS panel_4x20 \<le> 4
   \<and> trace power_on = []
   \<and> fst (displayClear panel_4x20 wiring power_on) = 0
   \<and> fst (displayHome panel_4x20 wiring power_on) = 0
   \<and> map_option fst (hd44780Goto panel_4x20 wiring 1 3 power_on) = Some 0
   \<and> map_option fst (hd44780WriteString wiring [0x48, 0x69] power_on) = Some 0
   \<and> map_option fst (loadCustom panel_4x20 wiring pacMan power_on) = Some 0
   \<and> fst (setEntryMode panel_4x20 wiring True False power_on) = 0
   \<and> fst (setDisplayMode panel_4x20 wiring True False False power_on) = 0
   \<and> fst (setMoveMode panel_4x20 wiring False True power_on) = 0"
proof -
  have a: "length [0x48, 0x69 :: uint8_t] < 256" by simp
  have b: "map length pacMan = replicate CUSTOM_CHARS CUSTOM_SIZE"
    by (simp add: pacMan_def CUSTOM_CHARS_def CUSTOM_SIZE_def numeral_eq_Suc)
  have c: "DISPLAY_ROWS panel_4x20 \<le> 4" by (simp add: panel_4x20_def)
  have e: "trace power_on = []" by (simp add: power_on_def)
  have f: "uint (1 :: uint8_t) < DISPLAY_ROWS panel_4x20
           \<and> uint (3 :: uint8_t) < DISPLAY_COLUMNS panel_4x20"
    by (simp add: panel_4x20_def)
  show ?thesis
    using commands_without_initialise [OF a b c, of wiring power_on 1 3 True False True False
        False False True]
      a b c e f by simp
qed

section \<open>The ticker's start\<close>

text \<open>
  Claim C8. When the ticker's text length plus its padding exceeds \<open>TEXT_MAX_LENGTH\<close>,
  \<open>displayTicker\<close> ends its own thread at once, for any number of periods it might
  otherwise have run: the ticker record, its text included, is as it was, and so is the
  world, so that no display operation was made, no lock taken and nothing outside the
  thread touched.
\<close>

theorem displayTicker_overflow_exit:
  "ticker_length ticker + ticker_padding ticker > TEXT_MAX_LENGTH hdr \<Longrightarrow>
   displayTicker hdr fuel ticker w = (ThreadExit, ticker, w)"
  by (simp add: displayTicker_def)

theorem displayTicker_overflow_exit_witness:
  "ticker_length long_ticker + ticker_padding long_ticker > TEXT_MAX_LENGTH panel_4x20
   \<and> displayTicker panel_4x20 5 long_ticker power_on = (ThreadExit, long_ticker, power_on)"
  using displayTicker_overflow_exit [of panel_4x20 long_ticker 5 power_on]
  by (simp add: long_ticker_def panel_4x20_def)

section \<open>Rotation by three reversals\<close>

text \<open>
  \<open>reverseString\<close> on a buffer split into the part before \<open>start\<close>, the segment and the
  rest: it returns, and the segment is reversed in place. The induction is on the length
  of the segment, which loses its two ends in each round of the loop.
\<close>

lemma reverseString_segment:
  "reverseString (xs @ ys @ zs) (length xs) (length xs + length ys) = Some (xs @ rev ys @ zs)"
proof (induction "length ys" arbitrary: xs ys zs rule: less_induct)
  case less
  show ?case
  proof (cases ys)
    case Nil
    then show ?thesis by (subst reverseString.simps) simp
  next
    case (Cons y ys')
    show ?thesis
    proof (cases ys' rule: rev_cases)
      case Nil
      have "reverseString (xs @ [y] @ zs) (length xs) (length xs + 1) = Some (xs @ [y] @ zs)"
        by (subst reverseString.simps, simp, subst reverseString.simps, simp)
      with Cons Nil show ?thesis by simp
    next
      case (snoc ms z)
      let ?buf = "xs @ (y # ms @ [z]) @ zs"
      have "length ms < length ys" using Cons snoc by simp
      then have ih: "reverseString ((xs @ [z]) @ ms @ (y # zs)) (length (xs @ [z]))
                       (length (xs @ [z]) + length ms) = Some ((xs @ [z]) @ rev ms @ (y # zs))"
        by (rule less)
      have "reverseString ?buf (length xs) (length xs + length (y # ms @ [z]))
              = reverseString ((xs @ [z]) @ ms @ (y # zs)) (length (xs @ [z]))
                  (length (xs @ [z]) + length ms)"
        by (subst reverseString.simps) (simp add: nth_append list_update_append)
      also note ih
      finally show ?thesis using Cons snoc by simp
    qed
  qed
qed

text \<open>
  \<open>rotateString\<close> on a buffer that holds at least \<open>L\<close> characters returns, with the first
  \<open>L\<close> characters rotated left by the increment modulo \<open>L\<close> and the rest as it was.
\<close>

lemma rotateString_rotate:
  assumes "0 < L" and "L \<le> length buf"
  shows "rotateString buf L k = Some (rotate (k mod L) (take L buf) @ drop L buf)"
proof -
  define i where "i = k mod L"
  define A where "A = take i buf"
  define B where "B = take (L - i) (drop i buf)"
  define C where "C = drop L buf"
  have i: "i < L" using assms(1) by (simp add: i_def)
  have lenA: "length A = i" using i assms(2) by (simp add: A_def)
  have lenB: "length B = L - i" using i assms(2) by (simp add: B_def)
  have AB: "take L buf = A @ B"
    using i by (simp add: A_def B_def take_add [symmetric])
  then have buf: "buf = A @ B @ C"
    by (metis C_def append_assoc append_take_drop_id)
  have s1: "reverseString buf 0 i = Some (rev A @ B @ C)"
    using reverseString_segment [of "[]" A "B @ C"] by (simp add: buf lenA)
  have s2: "reverseString (rev A @ B @ C) i L = Some (rev A @ rev B @ C)"
    using reverseString_segment [of "rev A" B C] i by (simp add: lenA lenB)
  have s3: "reverseString (rev A @ rev B @ C) 0 L = Some (B @ A @ C)"
    using reverseString_segment [of "[]" "rev A @ rev B" C] i by (simp add: lenA lenB)
  have "rotate i (A @ B) = B @ A"
    using rotate_append [of A B] by (simp add: lenA)
  then show ?thesis
    using assms(1) by (simp add: rotateString_def Let_def s1 s2 s3 AB flip: i_def C_def)
qed

text \<open>
  Claim C7. For a buffer that holds at least \<open>L \<ge> 1\<close> characters and every \<open>k < L\<close>,
  \<open>rotateString\<close> with increment \<open>k\<close> returns, and \<open>rotateString\<close> with increment
  \<open>L - k\<close> on its result returns the original buffer: the first \<open>L\<close> characters are back
  at their original values (and the rest never moved).
\<close>

theorem rotateString_inverse:
  assumes "1 \<le> L" and "L \<le> length buffer" and "k < L"
  shows "\<exists>b. rotateString buffer L k = Some b \<and> rotateString b L (L - k) = Some buffer"
proof -
  let ?b = "rotate k (take L buffer) @ drop L buffer"
  have b: "rotateString buffer L k = Some ?b"
    using rotateString_rotate [of L buffer k] assms by simp
  have len: "length (take L buffer) = L" using assms(2) by simp
  have tk: "take L ?b = rotate k (take L buffer)" using len by simp
  have dr: "drop L ?b = drop L buffer" using len by simp
  have rr: "rotate ((L - k) mod L) (rotate k (take L buffer)) = take L buffer"
  proof -
    have "rotate ((L - k) mod L) (rotate k (take L buffer))
            = rotate (L - k) (rotate k (take L buffer))"
      using rotate_conv_mod [of "L - k" "rotate k (take L buffer)"] len by simp
    also have "\<dots> = rotate L (take L buffer)"
      using assms(3) by (simp add: rotate_rotate)
    also have "\<dots> = take L buffer" using len by simp
    finally show ?thesis .
  qed
  have "rotateString ?b L (L - k) = Some (rotate ((L - k) mod L) (take L ?b) @ drop L ?b)"
    by (rule rotateString_rotate) (use assms in simp_all)
  then have "rotateString ?b L (L - k) = Some (take L buffer @ drop L buffer)"
    by (simp only: tk dr rr)
  then have "rotateString ?b L (L - k) = Some buffer" by simp
  with b show ?thesis by blast
qed

theorem rotateString_inverse_witness:
  "1 \<le> (5::nat) \<and> 5 \<le> length hello \<and> (2::nat) < 5
   \<and> rotateString hello 5 2 = Some [0x4C, 0x4C, 0x4F, 0x48, 0x45, 0x00]
   \<and> rotateString [0x4C, 0x4C, 0x4F, 0x48, 0x45, 0x00] 5 (5 - 2) = Some hello"
proof -
  have h: "1 \<le> (5::nat)" "5 \<le> length hello" "(2::nat) < 5"
    by (simp_all add: hello_def)
  have e: "rotateString hello 5 2 = Some [0x4C, 0x4C, 0x4F, 0x48, 0x45, 0x00]"
    by code_simp
  from rotateString_inverse [OF h] e h show ?thesis by auto
qed

text \<open>
  Claim C10. For a buffer that holds at least \<open>L \<ge> 1\<close> characters and every increment,
  \<open>rotateString\<close> returns a buffer of the same size whose part from index \<open>L\<close> on, the
  terminating NUL at index \<open>L\<close> included, is the original's: only the positions below
  \<open>L\<close> are written.
\<close>

theorem rotateString_frame:
  assumes "1 \<le> L" and "L \<le> length buffer"
  shows "\<exists>b. rotateString buffer L k = Some b \<and> length b = length buffer
             \<and> drop L b = drop L buffer"
proof -
  have "rotateString buffer L k = Some (rotate (k mod L) (take L buffer) @ drop L buffer)"
    using rotateString_rotate [of L buffer k] assms by simp
  moreover have "length (take L buffer) = L" using assms(2) by simp
  ultimately show ?thesis using assms(2) by simp
qed

theorem rotateString_frame_witness:
  "1 \<le> (5::nat) \<and> 5 \<le> length hello
   \<and> (\<exists>b. rotateString hello 5 7 = Some b \<and> length b = length hello
            \<and> drop 5 b = [0x00])"
proof -
  have h: "1 \<le> (5::nat)" "5 \<le> length hello"
    by (simp_all add: hello_def)
  have d: "drop 5 hello = [0x00]" by (simp add: hello_def)
  from rotateString_frame [OF h, of 7] d h show ?thesis by auto
qed

end
